theory Spec2Isabelle
  imports Complex_Main
begin

section \<open>Python values as decoded from JSON\<close>

text \<open>
  The client handles whatever \<open>json()\<close> of the HTTP library decodes: \<open>None\<close>, booleans,
  integers, floats, strings, lists and dicts.  A dict is an association list in insertion
  order whose keys are strings; a finite float is the rational it denotes.
\<close>

datatype json =
    JNull
  | JBool bool
  | JInt int
  | JFloat rat
  | JString string
  | JArray "json list"
  | JObject "(string \<times> json) list"

text \<open>Truth value of a Python object, as used by \<open>if x\<close>, \<open>not x\<close> and \<open>x or y\<close>.\<close>

fun truthy :: "json \<Rightarrow> bool" where
  "truthy JNull = False"
| "truthy (JBool b) = b"
| "truthy (JInt i) = (i \<noteq> 0)"
| "truthy (JFloat r) = (r \<noteq> 0)"
| "truthy (JString s) = (s \<noteq> [])"
| "truthy (JArray xs) = (xs \<noteq> [])"
| "truthy (JObject kvs) = (kvs \<noteq> [])"

text \<open>Python's \<open>x == n\<close> for an integer literal \<open>n\<close>: numbers compare by value, and
  \<open>True\<close> and \<open>False\<close> are the integers 1 and 0.\<close>

fun py_eq_int :: "json \<Rightarrow> int \<Rightarrow> bool" where
  "py_eq_int (JInt i) n = (i = n)"
| "py_eq_int (JFloat r) n = (r = of_int n)"
| "py_eq_int (JBool b) n = ((if b then 1 else 0) = n)"
| "py_eq_int JNull n = False"
| "py_eq_int (JString s) n = False"
| "py_eq_int (JArray xs) n = False"
| "py_eq_int (JObject kvs) n = False"

fun py_class_name :: "json \<Rightarrow> string" where
  "py_class_name JNull = ''NoneType''"
| "py_class_name (JBool b) = ''bool''"
| "py_class_name (JInt i) = ''int''"
| "py_class_name (JFloat r) = ''float''"
| "py_class_name (JString s) = ''str''"
| "py_class_name (JArray xs) = ''list''"
| "py_class_name (JObject kvs) = ''dict''"

text \<open>\<open>d[k] = v\<close> on a dict: an existing key keeps its place, a new key goes last.\<close>

fun dict_set :: "(string \<times> json) list \<Rightarrow> string \<Rightarrow> json \<Rightarrow> (string \<times> json) list" where
  "dict_set [] k v = [(k, v)]"
| "dict_set ((k', v') # kvs) k v =
     (if k' = k then (k, v) # kvs else (k', v') # dict_set kvs k v)"


section \<open>Exceptions\<close>

text \<open>
  \<open>KadalError(message, status)\<close> and its subclass \<open>MediaNotFound\<close> are the two exception
  classes of \<open>client.py\<close>; the others are the built-in exceptions that the subscripts,
  the attribute lookup, the calls with keyword arguments, the imports and
  \<open>asyncio.get_event_loop()\<close> raise, and the failure of the HTTP library, which the client
  never catches.
\<close>

datatype exn =
    KadalError json json
  | MediaNotFound json json
  | KeyError json
  | IndexError
  | TypeError
  | AttributeError
  | ValueError string
  | ImportError string
  | RuntimeError string
  | TransportFailure string

datatype exn_class =
    Exception_class
  | KadalError_class
  | MediaNotFound_class
  | LookupError_class
  | KeyError_class
  | IndexError_class
  | TypeError_class
  | AttributeError_class
  | ValueError_class
  | ImportError_class
  | RuntimeError_class
  | TransportFailure_class

fun class_of :: "exn \<Rightarrow> exn_class" where
  "class_of (KadalError m s) = KadalError_class"
| "class_of (MediaNotFound m s) = MediaNotFound_class"
| "class_of (KeyError k) = KeyError_class"
| "class_of IndexError = IndexError_class"
| "class_of TypeError = TypeError_class"
| "class_of AttributeError = AttributeError_class"
| "class_of (ValueError m) = ValueError_class"
| "class_of (ImportError m) = ImportError_class"
| "class_of (RuntimeError m) = RuntimeError_class"
| "class_of (TransportFailure m) = TransportFailure_class"

text \<open>The classes an exception class inherits from, itself first:
  \<open>class KadalError(Exception)\<close>, \<open>class MediaNotFound(KadalError)\<close>.\<close>

fun mro :: "exn_class \<Rightarrow> exn_class list" where
  "mro Exception_class = [Exception_class]"
| "mro KadalError_class = [KadalError_class, Exception_class]"
| "mro MediaNotFound_class = [MediaNotFound_class, KadalError_class, Exception_class]"
| "mro LookupError_class = [LookupError_class, Exception_class]"
| "mro KeyError_class = [KeyError_class, LookupError_class, Exception_class]"
| "mro IndexError_class = [IndexError_class, LookupError_class, Exception_class]"
| "mro TypeError_class = [TypeError_class, Exception_class]"
| "mro AttributeError_class = [AttributeError_class, Exception_class]"
| "mro ValueError_class = [ValueError_class, Exception_class]"
| "mro ImportError_class = [ImportError_class, Exception_class]"
| "mro RuntimeError_class = [RuntimeError_class, Exception_class]"
| "mro TransportFailure_class = [TransportFailure_class, Exception_class]"

text \<open>\<open>isinstance(e, c)\<close>, which is also whether \<open>except c\<close> catches \<open>e\<close>.\<close>

definition isinstance :: "exn \<Rightarrow> exn_class \<Rightarrow> bool" where
  "isinstance e c = (c \<in> set (mro (class_of e)))"

text \<open>The attributes \<open>message\<close> and \<open>status\<close> set by \<open>KadalError.__init__\<close>.\<close>

fun message :: "exn \<Rightarrow> json option" where
  "message (KadalError m s) = Some m"
| "message (MediaNotFound m s) = Some m"
| "message e = None"

fun status :: "exn \<Rightarrow> json option" where
  "status (KadalError m s) = Some s"
| "status (MediaNotFound m s) = Some s"
| "status e = None"

text \<open>Sequencing of a computation that may raise.\<close>

fun bind_exn :: "exn + 'a \<Rightarrow> ('a \<Rightarrow> exn + 'b) \<Rightarrow> exn + 'b" where
  "bind_exn (Inl e) f = Inl e"
| "bind_exn (Inr x) f = f x"


section \<open>Subscripts, \<open>get\<close> and iteration\<close>

text \<open>\<open>d.get(k)\<close>: only a dict has the method; an absent key gives \<open>None\<close>.\<close>

fun dict_get :: "json \<Rightarrow> string \<Rightarrow> exn + json" where
  "dict_get (JObject kvs) k = (case map_of kvs k of Some v \<Rightarrow> Inr v | None \<Rightarrow> Inr JNull)"
| "dict_get v k = Inl AttributeError"

text \<open>\<open>d[k]\<close> with a string key.\<close>

fun subscript_str :: "json \<Rightarrow> string \<Rightarrow> exn + json" where
  "subscript_str (JObject kvs) k =
     (case map_of kvs k of Some v \<Rightarrow> Inr v | None \<Rightarrow> Inl (KeyError (JString k)))"
| "subscript_str v k = Inl TypeError"

text \<open>\<open>x[0]\<close>: the first element of a list, the first character of a string; a decoded dict
  has string keys only, so the key \<open>0\<close> is absent from it.\<close>

fun subscript_zero :: "json \<Rightarrow> exn + json" where
  "subscript_zero (JArray xs) = (case xs of [] \<Rightarrow> Inl IndexError | x # rest \<Rightarrow> Inr x)"
| "subscript_zero (JString s) = (case s of [] \<Rightarrow> Inl IndexError | c # rest \<Rightarrow> Inr (JString [c]))"
| "subscript_zero (JObject kvs) = Inl (KeyError (JInt 0))"
| "subscript_zero v = Inl TypeError"

text \<open>The elements a \<open>for\<close> loop visits: those of a list, the characters of a string, the
  keys of a dict.\<close>

fun py_iter :: "json \<Rightarrow> exn + json list" where
  "py_iter (JArray xs) = Inr xs"
| "py_iter (JString s) = Inr (map (\<lambda>c. JString [c]) s)"
| "py_iter (JObject kvs) = Inr (map (\<lambda>kv. JString (fst kv)) kvs)"
| "py_iter v = Inl TypeError"


section \<open>The service, the session and the client\<close>

definition URL :: string where
  "URL = ''https://graphql.anilist.co''"

text \<open>
  Modelled from the spec: \<open>kadal.query\<close> is not part of the source at hand.  Its five query
  templates are opaque strings, so they are parameters of the client's operations.
\<close>

record queries =
  MEDIA_SEARCH :: string
  MEDIA_BY_ID :: string
  MEDIA_PAGED :: string
  USER_SEARCH :: string
  USER_BY_ID :: string

text \<open>
  Modelled from the spec: \<open>kadal.media.Media\<close> and \<open>kadal.user.User\<close> are not part of the
  source at hand.  A domain object is represented by the arguments its constructor
  receives: the raw object and, for \<open>Media\<close>, the shape flag \<open>page\<close>, which is \<open>False\<close> (the
  single-item shape) when the call does not give it.
\<close>

datatype media = Media (raw: json) (page: bool)

datatype user = User json

text \<open>The response object of the HTTP library: its body decodes to a value, or decoding
  fails.\<close>

datatype response = Response "exn + json"

fun r_json :: "response \<Rightarrow> exn + json" where
  "r_json (Response d) = d"

text \<open>The network: the requests posted so far, as URL and JSON body, and how the service
  answers a request.\<close>

record net =
  sent :: "(string \<times> json) list"
  respond :: "string \<Rightarrow> json \<Rightarrow> exn + response"

text \<open>A loop or a session handed to the constructor is any object; besides its identity
  only its truth value matters, which \<open>loop or ...\<close> and \<open>session or ...\<close> test.  The
  sessions the client builds itself are ordinary objects, hence true.\<close>

datatype loop = Loop nat bool

datatype session =
    ClientSession "loop option"
  | AsksSession
  | SuppliedSession nat bool

fun loop_truthy :: "loop option \<Rightarrow> bool" where
  "loop_truthy None = False"
| "loop_truthy (Some (Loop i b)) = b"

fun session_truthy :: "session option \<Rightarrow> bool" where
  "session_truthy None = False"
| "session_truthy (Some (SuppliedSession i b)) = b"
| "session_truthy (Some s) = True"

text \<open>What construction reads from the environment: whether \<open>aiohttp\<close> and \<open>asks\<close> can be
  imported, and what \<open>asyncio.get_event_loop()\<close> does: it returns the current loop, or
  raises \<open>RuntimeError\<close> when there is none.\<close>

record env =
  aiohttp_importable :: bool
  asks_importable :: bool
  get_event_loop :: "exn + loop"

record client =
  lib :: json
  session :: session

text \<open>\<open>session.post(URL, json=body)\<close>: one request goes out, and the service answers it.\<close>

definition post :: "session \<Rightarrow> string \<Rightarrow> json \<Rightarrow> net \<Rightarrow> (exn + response) \<times> net" where
  "post s url body n = (respond n url body, n\<lparr>sent := sent n @ [(url, body)]\<rparr>)"

text \<open>\<open>Client._make_session\<close>\<close>

definition make_session :: "env \<Rightarrow> json \<Rightarrow> loop option \<Rightarrow> exn + session" where
  "make_session e lb lp =
     (if lb = JString ''asyncio'' then
        (if aiohttp_importable e then Inr (ClientSession lp)
         else Inl (ImportError
           ''To use Kadal in asyncio mode, it requires the `aiohttp` module.''))
      else
        (if asks_importable e then Inr AsksSession
         else Inl (ImportError
           ''To use Kadal in curio/trio mode, it requires the `asks` module.'')))"

text \<open>\<open>Client.__init__\<close>\<close>

definition Client_init ::
  "env \<Rightarrow> session option \<Rightarrow> json \<Rightarrow> loop option \<Rightarrow> net \<Rightarrow> (exn + client) \<times> net" where
  "Client_init e sess lb lp n =
     (if lb \<notin> set [JString ''asyncio'', JString ''multio''] then
        (Inl (ValueError
           (''lib must be of type `str` and be either `asyncio` or `multio`, not `''
            @ (case lb of JString s \<Rightarrow> s | v \<Rightarrow> py_class_name v) @ ''`'')), n)
      else
        (bind_exn
           (if lb = JString ''asyncio'' then
              (if loop_truthy lp then Inr lp
               else bind_exn (get_event_loop e) (\<lambda>l. Inr (Some l)))
            else Inr lp) (\<lambda>lp'.
         bind_exn
           (case sess of
              None \<Rightarrow> make_session e lb lp'
            | Some s \<Rightarrow> if session_truthy (Some s) then Inr s else make_session e lb lp') (\<lambda>s.
         Inr \<lparr>lib = lb, session = s\<rparr>)), n))"

text \<open>\<open>Client.handle_error\<close>: every path raises.\<close>

definition handle_error :: "json \<Rightarrow> exn + unit" where
  "handle_error error =
     bind_exn (subscript_str error ''message'') (\<lambda>msg.
     bind_exn (subscript_str error ''status'') (\<lambda>st.
       if py_eq_int st 404 then Inl (MediaNotFound msg st)
       else Inl (KadalError msg st)))"

text \<open>\<open>Client._request\<close>: the body is decoded with or without a further suspension,
  depending on the mode; both give the decoded body.\<close>

definition request ::
  "client \<Rightarrow> string \<Rightarrow> (string \<times> json) list \<Rightarrow> net \<Rightarrow> (exn + json) \<times> net" where
  "request self query variables n =
     (case post (session self) URL
             (JObject [(''query'', JString query), (''variables'', JObject variables)]) n of
        (r, n') \<Rightarrow>
          (bind_exn r (\<lambda>r.
           bind_exn (if lib self = JString ''asyncio'' then r_json r else r_json r) (\<lambda>data.
           bind_exn (dict_get data ''errors'') (\<lambda>errors.
             if truthy errors then
               bind_exn (subscript_str data ''errors'') (\<lambda>errors.
               bind_exn (subscript_zero errors) (\<lambda>error.
               bind_exn (handle_error error) (\<lambda>u. Inr data)))
             else Inr data))), n'))"

text \<open>
  A call that passes \<open>**kwargs\<close> raises \<open>TypeError\<close>, before the body of the callee runs,
  when a key of \<open>kwargs\<close> names a parameter that the call has already bound.
\<close>

definition kwargs_clash :: "string list \<Rightarrow> (string \<times> json) list \<Rightarrow> bool" where
  "kwargs_clash params kwargs = (set params \<inter> set (map fst kwargs) \<noteq> {})"

text \<open>The call \<open>self._request(query, **kwargs)\<close> of \<open>_request(self, query, **variables)\<close>\<close>

definition request_kwargs ::
  "client \<Rightarrow> string \<Rightarrow> (string \<times> json) list \<Rightarrow> net \<Rightarrow> (exn + json) \<times> net" where
  "request_kwargs self query kwargs n =
     (if kwargs_clash [''self'', ''query''] kwargs then (Inl TypeError, n)
      else request self query kwargs n)"

text \<open>\<open>Client._paged_request\<close>, called as
  \<open>self._paged_request(page=pg, perPage=perPage, **variables)\<close>; the parameters are
  \<open>self\<close>, \<open>page\<close> and \<open>perPage\<close>.\<close>

definition paged_request ::
  "client \<Rightarrow> queries \<Rightarrow> json \<Rightarrow> json \<Rightarrow> (string \<times> json) list \<Rightarrow> net
     \<Rightarrow> (exn + json) \<times> net" where
  "paged_request self Q pg perPage variables n =
     (if kwargs_clash [''self'', ''page'', ''perPage''] variables then (Inl TypeError, n)
      else
        (case request_kwargs self (MEDIA_PAGED Q)
                ((''page'', pg) # (''perPage'', perPage) # variables) n of
           (r, n') \<Rightarrow>
             (bind_exn r (\<lambda>data.
              bind_exn (subscript_str data ''data'') (\<lambda>d.
              bind_exn (subscript_str d ''Page'') (\<lambda>p.
              bind_exn (subscript_str p ''media'') (\<lambda>lst.
                if \<not> truthy lst then Inl (MediaNotFound (JString ''Not Found.'') (JInt 404))
                else Inr lst)))), n')))"




text \<open>\<open>Client.custom_paged_search\<close>, called as
  \<open>custom_paged_search(pg, perPage, **variables)\<close>; the parameters are \<open>self\<close>, \<open>page\<close> and
  \<open>perPage\<close>.\<close>

definition custom_paged_search ::
  "client \<Rightarrow> queries \<Rightarrow> json \<Rightarrow> json \<Rightarrow> (string \<times> json) list \<Rightarrow> net
     \<Rightarrow> (exn + media list) \<times> net" where
  "custom_paged_search self Q pg perPage variables n =
     (if kwargs_clash [''self'', ''page'', ''perPage''] variables then (Inl TypeError, n)
      else
        (case paged_request self Q pg perPage variables n of
           (r, n') \<Rightarrow>
             (bind_exn r (\<lambda>lst.
              bind_exn (py_iter lst) (\<lambda>ms.
                Inr (map (\<lambda>media_data. Media media_data True) ms))), n')))"

text \<open>\<open>Client.search_anime\<close>; \<open>_paged_request(**variables)\<close> takes the defaults
  \<open>page=1\<close> and \<open>perPage=50\<close>.\<close>

definition search_anime ::
  "client \<Rightarrow> queries \<Rightarrow> json \<Rightarrow> bool \<Rightarrow> bool \<Rightarrow> net \<Rightarrow> (exn + media) \<times> net" where
  "search_anime self Q query popularity allow_adult n =
     (let variables = [(''search'', query), (''type'', JString ''ANIME'')];
          variables = (if \<not> allow_adult then dict_set variables ''isAdult'' (JBool False)
                       else variables)
      in if popularity then
           (case paged_request self Q (JInt 1) (JInt 50) variables n of
              (r, n') \<Rightarrow>
                (bind_exn r (\<lambda>lst.
                 bind_exn (subscript_zero lst) (\<lambda>data. Inr (Media data popularity))), n'))
         else
           (case request_kwargs self (MEDIA_SEARCH Q) variables n of
              (r, n') \<Rightarrow> (bind_exn r (\<lambda>data. Inr (Media data popularity)), n')))"

text \<open>\<open>Client.search_manga\<close>\<close>

definition search_manga ::
  "client \<Rightarrow> queries \<Rightarrow> json \<Rightarrow> bool \<Rightarrow> bool \<Rightarrow> bool \<Rightarrow> net \<Rightarrow> (exn + media) \<times> net" where
  "search_manga self Q query popularity include_novels allow_adult n =
     (let exclude = (if \<not> include_novels then JString ''NOVEL'' else JNull);
          variables = [(''search'', query), (''type'', JString ''MANGA''),
                       (''exclude'', exclude)];
          variables = (if \<not> allow_adult then dict_set variables ''isAdult'' (JBool False)
                       else variables)
      in if popularity then
           (case paged_request self Q (JInt 1) (JInt 50) variables n of
              (r, n') \<Rightarrow>
                (bind_exn r (\<lambda>lst.
                 bind_exn (subscript_zero lst) (\<lambda>data. Inr (Media data popularity))), n'))
         else
           (case request_kwargs self (MEDIA_SEARCH Q) variables n of
              (r, n') \<Rightarrow> (bind_exn r (\<lambda>data. Inr (Media data popularity)), n')))"

text \<open>\<open>Client.search_user\<close>\<close>

definition search_user :: "client \<Rightarrow> queries \<Rightarrow> json \<Rightarrow> net \<Rightarrow> (exn + user) \<times> net" where
  "search_user self Q query n =
     (case request self (USER_SEARCH Q) [(''search'', query)] n of
        (r, n') \<Rightarrow> (bind_exn r (\<lambda>data. Inr (User data)), n'))"

text \<open>The variables of the request that went out last, read back from the log.\<close>

fun body_variables :: "json \<Rightarrow> (string \<times> json) list option" where
  "body_variables (JObject kvs) =
     (case map_of kvs ''variables'' of Some (JObject vs) \<Rightarrow> Some vs | _ \<Rightarrow> None)"
| "body_variables v = None"

definition outgoing_variables :: "net \<Rightarrow> (string \<times> json) list option" where
  "outgoing_variables n =
     (if sent n = [] then None else body_variables (snd (last (sent n))))"

text \<open>The service's answer to the request that went out last.\<close>

definition answer :: "net \<Rightarrow> exn + response" where
  "answer n = respond n (fst (last (sent n))) (snd (last (sent n)))"

section \<open>Observations and test fixtures\<close>

text \<open>A stub service that answers every request with the same decoded body, and the
  network that starts with it.\<close>

definition stub_service :: "json \<Rightarrow> string \<Rightarrow> json \<Rightarrow> exn + response" where
  "stub_service data url body = Inr (Response (Inr data))"

definition stub_net :: "json \<Rightarrow> net" where
  "stub_net data = \<lparr>sent = [], respond = stub_service data\<rparr>"

text \<open>The response reports no error: \<open>data.get('errors')\<close> is falsy.\<close>

definition no_errors :: "json \<Rightarrow> bool" where
  "no_errors data = (case dict_get data ''errors'' of Inr e \<Rightarrow> \<not> truthy e | Inl x \<Rightarrow> False)"

text \<open>\<open>data['data']['Page']['media']\<close>\<close>

definition page_media :: "json \<Rightarrow> exn + json" where
  "page_media data =
     bind_exn (subscript_str data ''data'') (\<lambda>d.
     bind_exn (subscript_str d ''Page'') (\<lambda>p. subscript_str p ''media''))"

text \<open>The body \<open>_request\<close> posts for a query and its variables, the network after that
  request has gone out, and that the service answers that request with the decoded body
  \<open>data\<close>.\<close>

definition request_body :: "string \<Rightarrow> (string \<times> json) list \<Rightarrow> json" where
  "request_body query variables =
     JObject [(''query'', JString query), (''variables'', JObject variables)]"

definition
    posted :: "net \<Rightarrow> string \<Rightarrow> (string \<times> json) list \<Rightarrow> net" where
  "posted n query variables = n\<lparr>sent := sent n @ [(URL, request_body query variables)]\<rparr>"

definition answers :: "net \<Rightarrow> string \<Rightarrow> (string \<times> json) list \<Rightarrow> json \<Rightarrow> bool" where
  "answers n query variables data =
     (respond n URL (request_body query variables) = Inr (Response (Inr data)))"

definition client0 :: client where
  "client0 = \<lparr>lib = JString ''asyncio'', session = SuppliedSession 0 True\<rparr>"

definition queries0 :: queries where
  "queries0 = \<lparr>MEDIA_SEARCH = ''search'', MEDIA_BY_ID = ''by_id'', MEDIA_PAGED = ''paged'',
                USER_SEARCH = ''user_search'', USER_BY_ID = ''user_by_id''\<rparr>"

text \<open>The computation raises an exception of exactly the class \<open>c\<close>.\<close>

definition raises :: "exn + 'a \<Rightarrow> exn_class \<Rightarrow> bool" where
  "raises r c = (case r of Inl e \<Rightarrow> class_of e = c | Inr x \<Rightarrow> False)"

definition env_without_http :: env where
  "env_without_http =
     \<lparr>aiohttp_importable = False, asks_importable = False,
      get_event_loop = Inr (Loop 0 True)\<rparr>"

definition env_with_http :: env where
  "env_with_http =
     \<lparr>aiohttp_importable = True, asks_importable = True,
      get_event_loop = Inr (Loop 0 True)\<rparr>"

definition env_without_loop :: env where
  "env_without_loop =
     \<lparr>aiohttp_importable = False, asks_importable = False,
      get_event_loop = Inl (RuntimeError ''There is no current event loop'')\<rparr>"

definition empty_page :: json where
  "empty_page = JObject [(''data'', JObject [(''Page'', JObject [(''media'', JArray [])])])]"

definition two_media_page :: json where
  "two_media_page = JObject [(''data'', JObject [(''Page'', JObject [(''media'',
      JArray [JObject [(''id'', JInt 1)], JObject [(''id'', JInt 2)]])])])]"

definition single_media :: json where
  "single_media = JObject [(''data'', JObject [(''Media'',
      JObject [(''id'', JInt 1), (''title'', JString ''X'')])])]"


section \<open>How the operations compose\<close>

lemma request_net:
  "snd (request self query variables n) =
     n\<lparr>sent := sent n @ [(URL, JObject [(''query'', JString query), (''variables'', JObject variables)])]\<rparr>"
  by (simp add: request_def post_def)

lemma answer_request:
  "answer (snd (request self query variables n)) =
     respond n URL (JObject [(''query'', JString query), (''variables'', JObject variables)])"
  by (simp add: request_net answer_def)

lemma request_ok:
  assumes "answer (snd (request self query variables n)) = Inr (Response (Inr data))"
    and "no_errors data"
  shows "fst (request self query variables n) = Inr data"
  using assms unfolding answer_request
  by (auto simp: request_def post_def no_errors_def split: sum.splits)











lemma outgoing_variables_request:
  "outgoing_variables (snd (request self query variables n)) = Some variables"
  by (simp add: request_net outgoing_variables_def)

lemma no_errors_empty_page: "no_errors empty_page"
  by (simp add: no_errors_def empty_page_def)

lemma page_media_empty_page: "page_media empty_page = Inr (JArray [])"
  by (simp add: page_media_def empty_page_def)

lemma no_errors_two_media_page: "no_errors two_media_page"
  by (simp add: no_errors_def two_media_page_def)

lemma page_media_two_media_page:
  "page_media two_media_page = Inr (JArray [JObject [(''id'', JInt 1)], JObject [(''id'', JInt 2)]])"
  by (simp add: page_media_def two_media_page_def)


lemma bind_exn_assoc:
  "bind_exn (bind_exn m f) g = bind_exn m (\<lambda>x. bind_exn (f x) g)"
  by (cases m) simp_all

lemma page_media_bind:
  "bind_exn (subscript_str data ''data'') (\<lambda>d.
   bind_exn (subscript_str d ''Page'') (\<lambda>p.
   bind_exn (subscript_str p ''media'') f)) = bind_exn (page_media data) f"
  by (simp add: page_media_def bind_exn_assoc)

lemma request_posted:
  "snd (request self query variables n) = posted n query variables"
  by (simp add: request_net posted_def request_body_def)

lemma request_answered:
  assumes "answers n query variables data" and "no_errors data"
  shows "request self query variables n = (Inr data, posted n query variables)"
proof -
  have "answer (snd (request self query variables n)) = Inr (Response (Inr data))"
    using assms(1) by (simp add: answer_request answers_def request_body_def)
  then have "fst (request self query variables n) = Inr data"
    using assms(2) by (rule request_ok)
  then show ?thesis
    by (simp add: prod_eq_iff request_posted)
qed

lemma answers_stub_net: "answers (stub_net data) query variables data"
  by (simp add: answers_def stub_net_def stub_service_def)

lemma request_kwargs_free:
  "\<not> kwargs_clash [''self'', ''query''] kwargs \<Longrightarrow>
     request_kwargs self query kwargs n = request self query kwargs n"
  by (simp add: request_kwargs_def)

lemma paged_kwargs_free:
  assumes "\<not> kwargs_clash [''self'', ''page'', ''perPage'', ''query''] variables"
  shows "\<not> kwargs_clash [''self'', ''page'', ''perPage''] variables"
    and "\<not> kwargs_clash [''self'', ''query'']
        ((''page'', pg) # (''perPage'', perPage) # variables)"
  using assms by (auto simp: kwargs_clash_def)

lemma paged_request_free:
  assumes "\<not> kwargs_clash [''self'', ''page'', ''perPage'', ''query''] variables"
  shows "paged_request self Q pg perPage variables n =
           (bind_exn (fst (request self (MEDIA_PAGED Q)
               ((''page'', pg) # (''perPage'', perPage) # variables) n)) (\<lambda>data.
            bind_exn (page_media data) (\<lambda>lst.
              if \<not> truthy lst then Inl (MediaNotFound (JString ''Not Found.'') (JInt 404)) else Inr lst)),
            posted n (MEDIA_PAGED Q) ((''page'', pg) # (''perPage'', perPage) # variables))"
  using paged_kwargs_free(1)[OF assms] paged_kwargs_free(2)[OF assms, of pg perPage]
  by (simp add: paged_request_def request_kwargs_free page_media_bind request_posted
      case_prod_beta)

lemma paged_request_clash:
  assumes "kwargs_clash [''self'', ''page'', ''perPage'', ''query''] variables"
  shows "paged_request self Q pg perPage variables n = (Inl TypeError, n)"
proof (cases "kwargs_clash [''self'', ''page'', ''perPage''] variables")
  case True
  then show ?thesis by (simp add: paged_request_def)
next
  case False
  with assms have "kwargs_clash [''self'', ''query'']
      ((''page'', pg) # (''perPage'', perPage) # variables)"
    by (auto simp: kwargs_clash_def)
  with False show ?thesis by (simp add: paged_request_def request_kwargs_def)
qed

lemma paged_request_answered:
  assumes "\<not> kwargs_clash [''self'', ''page'', ''perPage'', ''query''] variables"
    and "answers n (MEDIA_PAGED Q) ((''page'', pg) # (''perPage'', perPage) # variables) data"
    and "no_errors data"
  shows "paged_request self Q pg perPage variables n =
           (bind_exn (page_media data) (\<lambda>lst.
              if \<not> truthy lst then Inl (MediaNotFound (JString ''Not Found.'') (JInt 404)) else Inr lst),
            posted n (MEDIA_PAGED Q) ((''page'', pg) # (''perPage'', perPage) # variables))"
  by (simp add: paged_request_free[OF assms(1)] request_answered[OF assms(2,3)])

lemma custom_paged_search_free:
  assumes "\<not> kwargs_clash [''self'', ''page'', ''perPage'', ''query''] variables"
  shows "custom_paged_search self Q pg perPage variables n =
           (bind_exn (fst (paged_request self Q pg perPage variables n)) (\<lambda>lst.
            bind_exn (py_iter lst) (\<lambda>ms. Inr (map (\<lambda>media_data. Media media_data True) ms))),
            snd (paged_request self Q pg perPage variables n))"
  using paged_kwargs_free(1)[OF assms]
  by (simp add: custom_paged_search_def case_prod_beta)

lemma custom_paged_search_clash:
  assumes "kwargs_clash [''self'', ''page'', ''perPage'', ''query''] variables"
  shows "custom_paged_search self Q pg perPage variables n = (Inl TypeError, n)"
  by (simp add: custom_paged_search_def paged_request_clash[OF assms])

lemma anime_variables_free:
  "\<not> kwargs_clash [''self'', ''page'', ''perPage'', ''query'']
      ((''search'', query) # (''type'', JString ''ANIME'') #
               (if allow_adult then [] else [(''isAdult'', JBool False)]))"
  by (simp add: kwargs_clash_def)

lemma manga_variables_free:
  "\<not> kwargs_clash [''self'', ''page'', ''perPage'', ''query'']
      ((''search'', query) # (''type'', JString ''MANGA'') #
               (''exclude'', if include_novels then JNull else JString ''NOVEL'') #
               (if allow_adult then [] else [(''isAdult'', JBool False)]))"
  by (simp add: kwargs_clash_def)

lemma search_anime_paged:
  "search_anime self Q query True allow_adult n =
     (bind_exn (fst (paged_request self Q (JInt 1) (JInt 50)
              ((''search'', query) # (''type'', JString ''ANIME'') #
               (if allow_adult then [] else [(''isAdult'', JBool False)])) n))
        (\<lambda>lst. bind_exn (subscript_zero lst) (\<lambda>data. Inr (Media data True))),
      snd (paged_request self Q (JInt 1) (JInt 50)
              ((''search'', query) # (''type'', JString ''ANIME'') #
               (if allow_adult then [] else [(''isAdult'', JBool False)])) n))"
  by (cases allow_adult) (simp_all add: search_anime_def Let_def case_prod_beta)

lemma search_anime_single:
  "search_anime self Q query False allow_adult n =
     (bind_exn (fst (request self (MEDIA_SEARCH Q)
              ((''search'', query) # (''type'', JString ''ANIME'') #
               (if allow_adult then [] else [(''isAdult'', JBool False)])) n))
        (\<lambda>data. Inr (Media data False)),
      posted n (MEDIA_SEARCH Q)
              ((''search'', query) # (''type'', JString ''ANIME'') #
               (if allow_adult then [] else [(''isAdult'', JBool False)])))"
  by (cases allow_adult)
     (simp_all add: search_anime_def Let_def request_kwargs_def kwargs_clash_def request_posted
        case_prod_beta)

lemma search_manga_paged:
  "search_manga self Q query True include_novels allow_adult n =
     (bind_exn (fst (paged_request self Q (JInt 1) (JInt 50)
              ((''search'', query) # (''type'', JString ''MANGA'') #
               (''exclude'', if include_novels then JNull else JString ''NOVEL'') #
               (if allow_adult then [] else [(''isAdult'', JBool False)])) n))
        (\<lambda>lst. bind_exn (subscript_zero lst) (\<lambda>data. Inr (Media data True))),
      snd (paged_request self Q (JInt 1) (JInt 50)
              ((''search'', query) # (''type'', JString ''MANGA'') #
               (''exclude'', if include_novels then JNull else JString ''NOVEL'') #
               (if allow_adult then [] else [(''isAdult'', JBool False)])) n))"
  by (cases allow_adult) (simp_all add: search_manga_def Let_def case_prod_beta)

lemma search_manga_single:
  "search_manga self Q query False include_novels allow_adult n =
     (bind_exn (fst (request self (MEDIA_SEARCH Q)
              ((''search'', query) # (''type'', JString ''MANGA'') #
               (''exclude'', if include_novels then JNull else JString ''NOVEL'') #
               (if allow_adult then [] else [(''isAdult'', JBool False)])) n))
        (\<lambda>data. Inr (Media data False)),
      posted n (MEDIA_SEARCH Q)
              ((''search'', query) # (''type'', JString ''MANGA'') #
               (''exclude'', if include_novels then JNull else JString ''NOVEL'') #
               (if allow_adult then [] else [(''isAdult'', JBool False)])))"
  by (cases allow_adult)
     (simp_all add: search_manga_def Let_def request_kwargs_def kwargs_clash_def request_posted
        case_prod_beta)

lemma outgoing_variables_posted:
  "outgoing_variables (posted n query variables) = Some variables"
  by (simp add: posted_def request_body_def outgoing_variables_def)

lemma outgoing_variables_search_anime:
  "outgoing_variables (snd (search_anime self Q query popularity allow_adult n)) =
     Some ((if popularity then [(''page'', JInt 1), (''perPage'', JInt 50)] else [])
           @ [(''search'', query), (''type'', JString ''ANIME'')]
           @ (if allow_adult then [] else [(''isAdult'', JBool False)]))"
  by (cases popularity)
     (simp_all add: search_anime_paged search_anime_single
        paged_request_free[OF anime_variables_free] outgoing_variables_posted)

lemma outgoing_variables_search_manga:
  "outgoing_variables (snd (search_manga self Q query popularity include_novels allow_adult n)) =
     Some ((if popularity then [(''page'', JInt 1), (''perPage'', JInt 50)] else [])
           @ [(''search'', query), (''type'', JString ''MANGA''),
              (''exclude'', if include_novels then JNull else JString ''NOVEL'')]
           @ (if allow_adult then [] else [(''isAdult'', JBool False)]))"
  by (cases popularity)
     (simp_all add: search_manga_paged search_manga_single
        paged_request_free[OF manga_variables_free] outgoing_variables_posted)

lemma search_anime_paged_answered:
  assumes "answers n (MEDIA_PAGED Q)
      ((''page'', JInt 1) # (''perPage'', JInt 50) # (''search'', query) #
               (''type'', JString ''ANIME'') #
               (if allow_adult then [] else [(''isAdult'', JBool False)])) data" and "no_errors data"
  shows "search_anime self Q query True allow_adult n =
           (bind_exn (bind_exn (page_media data) (\<lambda>lst.
              if \<not> truthy lst then Inl (MediaNotFound (JString ''Not Found.'') (JInt 404)) else Inr lst))
              (\<lambda>lst. bind_exn (subscript_zero lst) (\<lambda>data. Inr (Media data True))),
            posted n (MEDIA_PAGED Q)
                ((''page'', JInt 1) # (''perPage'', JInt 50) # (''search'', query) #
               (''type'', JString ''ANIME'') #
               (if allow_adult then [] else [(''isAdult'', JBool False)])))"
  by (simp add: search_anime_paged
      paged_request_answered[OF anime_variables_free assms])

lemma search_manga_paged_answered:
  assumes "answers n (MEDIA_PAGED Q)
      ((''page'', JInt 1) # (''perPage'', JInt 50) # (''search'', query) #
               (''type'', JString ''MANGA'') #
               (''exclude'', if include_novels then JNull else JString ''NOVEL'') #
               (if allow_adult then [] else [(''isAdult'', JBool False)])) data" and "no_errors data"
  shows "search_manga self Q query True include_novels allow_adult n =
           (bind_exn (bind_exn (page_media data) (\<lambda>lst.
              if \<not> truthy lst then Inl (MediaNotFound (JString ''Not Found.'') (JInt 404)) else Inr lst))
              (\<lambda>lst. bind_exn (subscript_zero lst) (\<lambda>data. Inr (Media data True))),
            posted n (MEDIA_PAGED Q)
                ((''page'', JInt 1) # (''perPage'', JInt 50) # (''search'', query) #
               (''type'', JString ''MANGA'') #
               (''exclude'', if include_novels then JNull else JString ''NOVEL'') #
               (if allow_adult then [] else [(''isAdult'', JBool False)])))"
  by (simp add: search_manga_paged
      paged_request_answered[OF manga_variables_free assms])

lemma custom_paged_search_answered:
  assumes "\<not> kwargs_clash [''self'', ''page'', ''perPage'', ''query''] variables"
    and "answers n (MEDIA_PAGED Q) ((''page'', pg) # (''perPage'', perPage) # variables) data"
    and "no_errors data"
  shows "custom_paged_search self Q pg perPage variables n =
           (bind_exn (bind_exn (page_media data) (\<lambda>lst.
              if \<not> truthy lst then Inl (MediaNotFound (JString ''Not Found.'') (JInt 404)) else Inr lst))
              (\<lambda>lst. bind_exn (py_iter lst)
                 (\<lambda>ms. Inr (map (\<lambda>media_data. Media media_data True) ms))),
            posted n (MEDIA_PAGED Q) ((''page'', pg) # (''perPage'', perPage) # variables))"
  by (simp add: custom_paged_search_free[OF assms(1)] paged_request_answered[OF assms])


section \<open>Claims\<close>



text \<open>
  C2.  When the request of a paged dispatch is answered by a response without errors whose
  \<open>data.Page.media\<close> is the empty list, the call raises \<open>MediaNotFound\<close> after posting the
  paged query with \<open>page\<close>, \<open>perPage\<close> and the caller's variables: \<open>_paged_request\<close> and
  \<open>custom_paged_search\<close> for all variables that the call can forward, \<open>search_anime\<close> and
  \<open>search_manga\<close> with \<open>popularity=True\<close> always.  Variables that cannot be forwarded, because
  one is named like a parameter of the callee (\<open>self\<close>, \<open>page\<close>, \<open>perPage\<close>, \<open>query\<close>), raise
  \<open>TypeError\<close> before any request goes out, so no response exists for them.
\<close>

theorem paged_dispatch_empty_not_found:
  assumes "no_errors data" and "page_media data = Inr (JArray [])"
  shows "(\<not> kwargs_clash [''self'', ''page'', ''perPage'', ''query''] variables
            \<and> answers n (MEDIA_PAGED Q)
                ((''page'', pg) # (''perPage'', perPage) # variables) data
          \<longrightarrow> paged_request self Q pg perPage variables n =
                (Inl (MediaNotFound (JString ''Not Found.'') (JInt 404)),
                 posted n (MEDIA_PAGED Q) ((''page'', pg) # (''perPage'', perPage) # variables))
            \<and> custom_paged_search self Q pg perPage variables n =
                (Inl (MediaNotFound (JString ''Not Found.'') (JInt 404)),
                 posted n (MEDIA_PAGED Q) ((''page'', pg) # (''perPage'', perPage) # variables)))
       \<and> (kwargs_clash [''self'', ''page'', ''perPage'', ''query''] variables
          \<longrightarrow> paged_request self Q pg perPage variables n = (Inl TypeError, n)
            \<and> custom_paged_search self Q pg perPage variables n = (Inl TypeError, n))
       \<and> (answers n (MEDIA_PAGED Q)
              ((''page'', JInt 1) # (''perPage'', JInt 50) # (''search'', query) #
               (''type'', JString ''ANIME'') #
               (if allow_adult then [] else [(''isAdult'', JBool False)])) data
          \<longrightarrow> search_anime self Q query True allow_adult n =
                (Inl (MediaNotFound (JString ''Not Found.'') (JInt 404)),
                 posted n (MEDIA_PAGED Q)
              ((''page'', JInt 1) # (''perPage'', JInt 50) # (''search'', query) #
               (''type'', JString ''ANIME'') #
               (if allow_adult then [] else [(''isAdult'', JBool False)]))))
       \<and> (answers n (MEDIA_PAGED Q)
              ((''page'', JInt 1) # (''perPage'', JInt 50) # (''search'', query) #
               (''type'', JString ''MANGA'') #
               (''exclude'', if include_novels then JNull else JString ''NOVEL'') #
               (if allow_adult then [] else [(''isAdult'', JBool False)])) data
          \<longrightarrow> search_manga self Q query True include_novels allow_adult n =
                (Inl (MediaNotFound (JString ''Not Found.'') (JInt 404)),
                 posted n (MEDIA_PAGED Q)
              ((''page'', JInt 1) # (''perPage'', JInt 50) # (''search'', query) #
               (''type'', JString ''MANGA'') #
               (''exclude'', if include_novels then JNull else JString ''NOVEL'') #
               (if allow_adult then [] else [(''isAdult'', JBool False)]))))"
proof (intro conjI impI)
  assume h: "\<not> kwargs_clash [''self'', ''page'', ''perPage'', ''query''] variables
               \<and> answers n (MEDIA_PAGED Q)
                   ((''page'', pg) # (''perPage'', perPage) # variables) data"
  then have f: "\<not> kwargs_clash [''self'', ''page'', ''perPage'', ''query''] variables"
    and a: "answers n (MEDIA_PAGED Q) ((''page'', pg) # (''perPage'', perPage) # variables) data"
    by simp_all
  show "paged_request self Q pg perPage variables n =
          (Inl (MediaNotFound (JString ''Not Found.'') (JInt 404)), posted n (MEDIA_PAGED Q)
              ((''page'', pg) # (''perPage'', perPage) # variables))"
    using assms(2) by (simp add: paged_request_answered[OF f a assms(1)])
  show "custom_paged_search self Q pg perPage variables n =
          (Inl (MediaNotFound (JString ''Not Found.'') (JInt 404)), posted n (MEDIA_PAGED Q)
              ((''page'', pg) # (''perPage'', perPage) # variables))"
    using assms(2) by (simp add: custom_paged_search_answered[OF f a assms(1)])
next
  assume c: "kwargs_clash [''self'', ''page'', ''perPage'', ''query''] variables"
  show "paged_request self Q pg perPage variables n = (Inl TypeError, n)"
    using c by (rule paged_request_clash)
  show "custom_paged_search self Q pg perPage variables n = (Inl TypeError, n)"
    using c by (rule custom_paged_search_clash)
next
  assume a: "answers n (MEDIA_PAGED Q)
      ((''page'', JInt 1) # (''perPage'', JInt 50) # (''search'', query) #
               (''type'', JString ''ANIME'') #
               (if allow_adult then [] else [(''isAdult'', JBool False)])) data"
  show "search_anime self Q query True allow_adult n =
          (Inl (MediaNotFound (JString ''Not Found.'') (JInt 404)), posted n (MEDIA_PAGED Q)
              ((''page'', JInt 1) # (''perPage'', JInt 50) # (''search'', query) #
               (''type'', JString ''ANIME'') #
               (if allow_adult then [] else [(''isAdult'', JBool False)])))"
    using assms(2) by (simp add: search_anime_paged_answered[OF a assms(1)])
next
  assume a: "answers n (MEDIA_PAGED Q)
      ((''page'', JInt 1) # (''perPage'', JInt 50) # (''search'', query) #
               (''type'', JString ''MANGA'') #
               (''exclude'', if include_novels then JNull else JString ''NOVEL'') #
               (if allow_adult then [] else [(''isAdult'', JBool False)])) data"
  show "search_manga self Q query True include_novels allow_adult n =
          (Inl (MediaNotFound (JString ''Not Found.'') (JInt 404)), posted n (MEDIA_PAGED Q)
              ((''page'', JInt 1) # (''perPage'', JInt 50) # (''search'', query) #
               (''type'', JString ''MANGA'') #
               (''exclude'', if include_novels then JNull else JString ''NOVEL'') #
               (if allow_adult then [] else [(''isAdult'', JBool False)])))"
    using assms(2) by (simp add: search_manga_paged_answered[OF a assms(1)])
qed

theorem paged_dispatch_empty_not_found_witness:
  "no_errors empty_page \<and> page_media empty_page = Inr (JArray [])
   \<and> \<not> kwargs_clash [''self'', ''page'', ''perPage'', ''query''] [(''type'', JString ''ANIME'')]
   \<and> answers (stub_net empty_page) (MEDIA_PAGED queries0)
        [(''page'', JInt 1), (''perPage'', JInt 50), (''type'', JString ''ANIME'')] empty_page
   \<and> paged_request client0 queries0 (JInt 1) (JInt 50) [(''type'', JString ''ANIME'')]
        (stub_net empty_page) =
       (Inl (MediaNotFound (JString ''Not Found.'') (JInt 404)),
        posted (stub_net empty_page) (MEDIA_PAGED queries0)
          [(''page'', JInt 1), (''perPage'', JInt 50), (''type'', JString ''ANIME'')])
   \<and> custom_paged_search client0 queries0 (JInt 1) (JInt 50) [(''type'', JString ''ANIME'')]
        (stub_net empty_page) =
       (Inl (MediaNotFound (JString ''Not Found.'') (JInt 404)),
        posted (stub_net empty_page) (MEDIA_PAGED queries0)
          [(''page'', JInt 1), (''perPage'', JInt 50), (''type'', JString ''ANIME'')])
   \<and> kwargs_clash [''self'', ''page'', ''perPage'', ''query''] [(''query'', JString ''x'')]
   \<and> paged_request client0 queries0 (JInt 1) (JInt 50) [(''query'', JString ''x'')]
        (stub_net empty_page) = (Inl TypeError, stub_net empty_page)
   \<and> custom_paged_search client0 queries0 (JInt 1) (JInt 50) [(''query'', JString ''x'')]
        (stub_net empty_page) = (Inl TypeError, stub_net empty_page)
   \<and> search_anime client0 queries0 (JString ''x'') True False (stub_net empty_page) =
       (Inl (MediaNotFound (JString ''Not Found.'') (JInt 404)),
        posted (stub_net empty_page) (MEDIA_PAGED queries0)
          [(''page'', JInt 1), (''perPage'', JInt 50), (''search'', JString ''x''),
           (''type'', JString ''ANIME''), (''isAdult'', JBool False)])
   \<and> search_manga client0 queries0 (JString ''x'') True False False (stub_net empty_page) =
       (Inl (MediaNotFound (JString ''Not Found.'') (JInt 404)),
        posted (stub_net empty_page) (MEDIA_PAGED queries0)
          [(''page'', JInt 1), (''perPage'', JInt 50), (''search'', JString ''x''),
           (''type'', JString ''MANGA''), (''exclude'', JString ''NOVEL''),
           (''isAdult'', JBool False)])"
  using paged_dispatch_empty_not_found [of empty_page "[(''type'', JString ''ANIME'')]"
      "stub_net empty_page" queries0 "JInt 1" "JInt 50" client0 "JString ''x''" False False]
    paged_dispatch_empty_not_found [of empty_page "[(''query'', JString ''x'')]"
      "stub_net empty_page" queries0 "JInt 1" "JInt 50" client0 "JString ''x''" False False]
  by (simp add: no_errors_empty_page page_media_empty_page answers_stub_net kwargs_clash_def)




text \<open>
  C4.  When the request of \<open>custom_paged_search\<close> is answered by a response without errors
  whose \<open>data.Page.media\<close> is a list of at least one entry, the method posts the paged query
  once and returns the list that has, at each position, the \<open>Media\<close> object constructed
  from the entry at that position with \<open>page=True\<close>: the same length and the same order.
  The variables are any that the call can forward.
\<close>

theorem custom_paged_search_maps_in_order:
  assumes "\<not> kwargs_clash [''self'', ''page'', ''perPage'', ''query''] variables"
    and "answers n (MEDIA_PAGED Q) ((''page'', pg) # (''perPage'', perPage) # variables) data"
    and "no_errors data"
    and "page_media data = Inr (JArray ms)"
    and "ms \<noteq> []"
  shows "custom_paged_search self Q pg perPage variables n =
           (Inr (map (\<lambda>m. Media m True) ms),
            posted n (MEDIA_PAGED Q) ((''page'', pg) # (''perPage'', perPage) # variables))"
  using assms(4,5) by (simp add: custom_paged_search_answered[OF assms(1,2,3)])

theorem custom_paged_search_maps_in_order_witness:
  "\<not> kwargs_clash [''self'', ''page'', ''perPage'', ''query''] [(''type'', JString ''ANIME'')]
   \<and> answers (stub_net two_media_page) (MEDIA_PAGED queries0)
        [(''page'', JInt 1), (''perPage'', JInt 2), (''type'', JString ''ANIME'')] two_media_page
   \<and> no_errors two_media_page
   \<and> page_media two_media_page =
       Inr (JArray [JObject [(''id'', JInt 1)], JObject [(''id'', JInt 2)]])
   \<and> custom_paged_search client0 queries0 (JInt 1) (JInt 2)
        [(''type'', JString ''ANIME'')] (stub_net two_media_page) =
       (Inr [Media (JObject [(''id'', JInt 1)]) True, Media (JObject [(''id'', JInt 2)]) True],
        posted (stub_net two_media_page) (MEDIA_PAGED queries0)
          [(''page'', JInt 1), (''perPage'', JInt 2), (''type'', JString ''ANIME'')])"
  using custom_paged_search_maps_in_order [of "[(''type'', JString ''ANIME'')]"
      "stub_net two_media_page" queries0 "JInt 1" "JInt 2" two_media_page
      "[JObject [(''id'', JInt 1)], JObject [(''id'', JInt 2)]]" client0]
  by (simp add: answers_stub_net no_errors_two_media_page page_media_two_media_page
      kwargs_clash_def)

text \<open>
  C5.  For a response without errors: \<open>search_anime\<close> and \<open>search_manga\<close> with
  \<open>popularity=True\<close> post the paged query with \<open>page=1\<close> and \<open>perPage=50\<close> and return the
  \<open>Media\<close> object constructed from the first entry of a non-empty \<open>data.Page.media\<close> with
  \<open>page=True\<close>; with \<open>popularity=False\<close> they post the single-item search query, without
  \<open>page\<close> and \<open>perPage\<close>, and return the \<open>Media\<close> object constructed from its response with
  \<open>page=False\<close>.
\<close>

theorem search_popularity_first_or_single:
  assumes "no_errors data"
  shows "(answers n (MEDIA_PAGED Q)
              ((''page'', JInt 1) # (''perPage'', JInt 50) # (''search'', query) #
               (''type'', JString ''ANIME'') #
               (if allow_adult then [] else [(''isAdult'', JBool False)])) data
            \<and> page_media data = Inr (JArray (m # ms))
          \<longrightarrow> search_anime self Q query True allow_adult n =
                (Inr (Media m True),
                 posted n (MEDIA_PAGED Q)
              ((''page'', JInt 1) # (''perPage'', JInt 50) # (''search'', query) #
               (''type'', JString ''ANIME'') #
               (if allow_adult then [] else [(''isAdult'', JBool False)]))))
       \<and> (answers n (MEDIA_PAGED Q)
              ((''page'', JInt 1) # (''perPage'', JInt 50) # (''search'', query) #
               (''type'', JString ''MANGA'') #
               (''exclude'', if include_novels then JNull else JString ''NOVEL'') #
               (if allow_adult then [] else [(''isAdult'', JBool False)])) data
            \<and> page_media data = Inr (JArray (m # ms))
          \<longrightarrow> search_manga self Q query True include_novels allow_adult n =
                (Inr (Media m True),
                 posted n (MEDIA_PAGED Q)
              ((''page'', JInt 1) # (''perPage'', JInt 50) # (''search'', query) #
               (''type'', JString ''MANGA'') #
               (''exclude'', if include_novels then JNull else JString ''NOVEL'') #
               (if allow_adult then [] else [(''isAdult'', JBool False)]))))
       \<and> (answers n (MEDIA_SEARCH Q)
              ((''search'', query) # (''type'', JString ''ANIME'') #
               (if allow_adult then [] else [(''isAdult'', JBool False)])) data
          \<longrightarrow> search_anime self Q query False allow_adult n =
                (Inr (Media data False),
                 posted n (MEDIA_SEARCH Q)
              ((''search'', query) # (''type'', JString ''ANIME'') #
               (if allow_adult then [] else [(''isAdult'', JBool False)]))))
       \<and> (answers n (MEDIA_SEARCH Q)
              ((''search'', query) # (''type'', JString ''MANGA'') #
               (''exclude'', if include_novels then JNull else JString ''NOVEL'') #
               (if allow_adult then [] else [(''isAdult'', JBool False)])) data
          \<longrightarrow> search_manga self Q query False include_novels allow_adult n =
                (Inr (Media data False),
                 posted n (MEDIA_SEARCH Q)
              ((''search'', query) # (''type'', JString ''MANGA'') #
               (''exclude'', if include_novels then JNull else JString ''NOVEL'') #
               (if allow_adult then [] else [(''isAdult'', JBool False)]))))"
proof (intro conjI impI)
  assume "answers n (MEDIA_PAGED Q)
      ((''page'', JInt 1) # (''perPage'', JInt 50) # (''search'', query) #
               (''type'', JString ''ANIME'') #
               (if allow_adult then [] else [(''isAdult'', JBool False)])) data
            \<and> page_media data = Inr (JArray (m # ms))"
  then have a: "answers n (MEDIA_PAGED Q)
      ((''page'', JInt 1) # (''perPage'', JInt 50) # (''search'', query) #
               (''type'', JString ''ANIME'') #
               (if allow_adult then [] else [(''isAdult'', JBool False)])) data"
    and pm: "page_media data = Inr (JArray (m # ms))"
    by simp_all
  show "search_anime self Q query True allow_adult n =
          (Inr (Media m True), posted n (MEDIA_PAGED Q)
              ((''page'', JInt 1) # (''perPage'', JInt 50) # (''search'', query) #
               (''type'', JString ''ANIME'') #
               (if allow_adult then [] else [(''isAdult'', JBool False)])))"
    using pm by (simp add: search_anime_paged_answered[OF a assms])
next
  assume "answers n (MEDIA_PAGED Q)
      ((''page'', JInt 1) # (''perPage'', JInt 50) # (''search'', query) #
               (''type'', JString ''MANGA'') #
               (''exclude'', if include_novels then JNull else JString ''NOVEL'') #
               (if allow_adult then [] else [(''isAdult'', JBool False)])) data
            \<and> page_media data = Inr (JArray (m # ms))"
  then have a: "answers n (MEDIA_PAGED Q)
      ((''page'', JInt 1) # (''perPage'', JInt 50) # (''search'', query) #
               (''type'', JString ''MANGA'') #
               (''exclude'', if include_novels then JNull else JString ''NOVEL'') #
               (if allow_adult then [] else [(''isAdult'', JBool False)])) data"
    and pm: "page_media data = Inr (JArray (m # ms))"
    by simp_all
  show "search_manga self Q query True include_novels allow_adult n =
          (Inr (Media m True), posted n (MEDIA_PAGED Q)
              ((''page'', JInt 1) # (''perPage'', JInt 50) # (''search'', query) #
               (''type'', JString ''MANGA'') #
               (''exclude'', if include_novels then JNull else JString ''NOVEL'') #
               (if allow_adult then [] else [(''isAdult'', JBool False)])))"
    using pm by (simp add: search_manga_paged_answered[OF a assms])
next
  assume a: "answers n (MEDIA_SEARCH Q) ((''search'', query) # (''type'', JString ''ANIME'') #
               (if allow_adult then [] else [(''isAdult'', JBool False)])) data"
  show "search_anime self Q query False allow_adult n =
          (Inr (Media data False), posted n (MEDIA_SEARCH Q)
              ((''search'', query) # (''type'', JString ''ANIME'') #
               (if allow_adult then [] else [(''isAdult'', JBool False)])))"
    by (simp add: search_anime_single request_answered[OF a assms])
next
  assume a: "answers n (MEDIA_SEARCH Q) ((''search'', query) # (''type'', JString ''MANGA'') #
               (''exclude'', if include_novels then JNull else JString ''NOVEL'') #
               (if allow_adult then [] else [(''isAdult'', JBool False)])) data"
  show "search_manga self Q query False include_novels allow_adult n =
          (Inr (Media data False), posted n (MEDIA_SEARCH Q)
              ((''search'', query) # (''type'', JString ''MANGA'') #
               (''exclude'', if include_novels then JNull else JString ''NOVEL'') #
               (if allow_adult then [] else [(''isAdult'', JBool False)])))"
    by (simp add: search_manga_single request_answered[OF a assms])
qed

theorem search_popularity_first_or_single_witness:
  "no_errors two_media_page
   \<and> page_media two_media_page =
       Inr (JArray [JObject [(''id'', JInt 1)], JObject [(''id'', JInt 2)]])
   \<and> answers (stub_net two_media_page) (MEDIA_PAGED queries0)
        [(''page'', JInt 1), (''perPage'', JInt 50), (''search'', JString ''x''),
         (''type'', JString ''ANIME''), (''isAdult'', JBool False)] two_media_page
   \<and> search_anime client0 queries0 (JString ''x'') True False (stub_net two_media_page) =
       (Inr (Media (JObject [(''id'', JInt 1)]) True),
        posted (stub_net two_media_page) (MEDIA_PAGED queries0)
          [(''page'', JInt 1), (''perPage'', JInt 50), (''search'', JString ''x''),
           (''type'', JString ''ANIME''), (''isAdult'', JBool False)])
   \<and> search_manga client0 queries0 (JString ''x'') True False False (stub_net two_media_page) =
       (Inr (Media (JObject [(''id'', JInt 1)]) True),
        posted (stub_net two_media_page) (MEDIA_PAGED queries0)
          [(''page'', JInt 1), (''perPage'', JInt 50), (''search'', JString ''x''),
           (''type'', JString ''MANGA''), (''exclude'', JString ''NOVEL''),
           (''isAdult'', JBool False)])
   \<and> search_anime client0 queries0 (JString ''x'') False False (stub_net two_media_page) =
       (Inr (Media two_media_page False),
        posted (stub_net two_media_page) (MEDIA_SEARCH queries0)
          [(''search'', JString ''x''), (''type'', JString ''ANIME''),
           (''isAdult'', JBool False)])
   \<and> search_manga client0 queries0 (JString ''x'') False False False
        (stub_net two_media_page) =
       (Inr (Media two_media_page False),
        posted (stub_net two_media_page) (MEDIA_SEARCH queries0)
          [(''search'', JString ''x''), (''type'', JString ''MANGA''),
           (''exclude'', JString ''NOVEL''), (''isAdult'', JBool False)])"
  using search_popularity_first_or_single [of two_media_page "stub_net two_media_page" queries0
      "JString ''x''" False "JObject [(''id'', JInt 1)]" "[JObject [(''id'', JInt 2)]]"
      client0 False]
  by (simp add: no_errors_two_media_page page_media_two_media_page answers_stub_net)

text \<open>
  C6.  The variables of the request that \<open>search_anime\<close> and \<open>search_manga\<close> send hold
  \<open>isAdult: False\<close> when \<open>allow_adult\<close> is false, and have no key \<open>isAdult\<close> when
  \<open>allow_adult\<close> is true, for either value of \<open>popularity\<close>.
\<close>

theorem search_is_adult_variable:
  "map_option (\<lambda>vs. map_of vs ''isAdult'')
     (outgoing_variables (snd (search_anime self Q query popularity False n))) =
       Some (Some (JBool False))
   \<and> map_option (\<lambda>vs. map_of vs ''isAdult'')
     (outgoing_variables (snd (search_manga self Q query popularity include_novels False n))) =
       Some (Some (JBool False))
   \<and> map_option (\<lambda>vs. map_of vs ''isAdult'')
     (outgoing_variables (snd (search_anime self Q query popularity True n))) = Some None
   \<and> map_option (\<lambda>vs. map_of vs ''isAdult'')
     (outgoing_variables (snd (search_manga self Q query popularity include_novels True n))) =
       Some None"
  by (simp add: outgoing_variables_search_anime outgoing_variables_search_manga)

theorem search_is_adult_variable_witness:
  "map_option (\<lambda>vs. map_of vs ''isAdult'')
     (outgoing_variables (snd (search_anime client0 queries0 (JString ''x'') False False
        (stub_net single_media)))) = Some (Some (JBool False))
   \<and> map_option (\<lambda>vs. map_of vs ''isAdult'')
     (outgoing_variables (snd (search_manga client0 queries0 (JString ''x'') False False False
        (stub_net single_media)))) = Some (Some (JBool False))
   \<and> map_option (\<lambda>vs. map_of vs ''isAdult'')
     (outgoing_variables (snd (search_anime client0 queries0 (JString ''x'') False True
        (stub_net single_media)))) = Some None
   \<and> map_option (\<lambda>vs. map_of vs ''isAdult'')
     (outgoing_variables (snd (search_manga client0 queries0 (JString ''x'') False False True
        (stub_net single_media)))) = Some None"
  using search_is_adult_variable [of client0 queries0 "JString ''x''" False
      "stub_net single_media" False]
  by simp

text \<open>
  C7.  The variables of the request that \<open>search_manga\<close> sends hold \<open>exclude: "NOVEL"\<close> when
  \<open>include_novels\<close> is false, and \<open>exclude: None\<close> (null) when \<open>include_novels\<close> is true.
\<close>

theorem search_manga_exclude_variable:
  "map_option (\<lambda>vs. map_of vs ''exclude'')
     (outgoing_variables (snd (search_manga self Q query popularity False allow_adult n))) =
       Some (Some (JString ''NOVEL''))
   \<and> map_option (\<lambda>vs. map_of vs ''exclude'')
     (outgoing_variables (snd (search_manga self Q query popularity True allow_adult n))) =
       Some (Some JNull)"
  by (simp add: outgoing_variables_search_manga)

theorem search_manga_exclude_variable_witness:
  "map_option (\<lambda>vs. map_of vs ''exclude'')
     (outgoing_variables (snd (search_manga client0 queries0 (JString ''x'') True False False
        (stub_net two_media_page)))) = Some (Some (JString ''NOVEL''))
   \<and> map_option (\<lambda>vs. map_of vs ''exclude'')
     (outgoing_variables (snd (search_manga client0 queries0 (JString ''x'') True True False
        (stub_net two_media_page)))) = Some (Some JNull)"
  using search_manga_exclude_variable [of client0 queries0 "JString ''x''" True False
      "stub_net two_media_page"]
  by simp

text \<open>
  C8.  As stated, the claim fails.  With a session supplied, construction in \<open>asyncio\<close> mode
  succeeds although \<open>aiohttp\<close> cannot be imported, because
  \<open>session or self._make_session(lib, loop)\<close> attempts the import only when no session is
  given.  With no session and no loop supplied, \<open>asyncio.get_event_loop()\<close> runs before the
  import, and when it raises, construction fails with its \<open>RuntimeError\<close>, not with
  \<open>ImportError\<close>.
\<close>

theorem Client_init_supplied_session_counterexample:
  "\<not> aiohttp_importable env_without_http
   \<and> Client_init env_without_http (Some (SuppliedSession 0 True)) (JString ''asyncio'') None
       (stub_net JNull) =
     (Inr \<lparr>lib = JString ''asyncio'', session = SuppliedSession 0 True\<rparr>, stub_net JNull)
   \<and> \<not> aiohttp_importable env_without_loop
   \<and> Client_init env_without_loop None (JString ''asyncio'') None (stub_net JNull) =
     (Inl (RuntimeError ''There is no current event loop''), stub_net JNull)"
  by (simp add: Client_init_def env_without_http_def env_without_loop_def)

text \<open>
  C8, amended.  Construction sends no request.  It raises \<open>ValueError\<close> when \<open>lib\<close> is
  neither \<open>'asyncio'\<close> nor \<open>'multio'\<close>.  When no session is supplied and the HTTP library
  of the mode cannot be imported it raises \<open>ImportError\<close>, a different class; in \<open>asyncio\<close>
  mode this is so when a loop is supplied or \<open>asyncio.get_event_loop()\<close> returns one.  When
  no session is supplied and construction succeeds, the client holds the session that
  \<open>_make_session\<close> builds for the mode: an \<open>aiohttp.ClientSession\<close> on the supplied or the
  current loop for \<open>'asyncio'\<close>, an \<open>asks.Session\<close> for \<open>'multio'\<close>.
\<close>

theorem Client_init_configuration_errors:
  "(lb \<noteq> JString ''asyncio'' \<and> lb \<noteq> JString ''multio''
      \<longrightarrow> raises (fst (Client_init e sess lb lp n)) ValueError_class)
   \<and> (lb = JString ''asyncio'' \<and> sess = None
        \<and> (loop_truthy lp \<or> get_event_loop e = Inr l) \<and> \<not> aiohttp_importable e
      \<longrightarrow> raises (fst (Client_init e sess lb lp n)) ImportError_class)
   \<and> (lb = JString ''multio'' \<and> sess = None \<and> \<not> asks_importable e
      \<longrightarrow> raises (fst (Client_init e sess lb lp n)) ImportError_class)
   \<and> (lb = JString ''asyncio'' \<and> sess = None \<and> fst (Client_init e sess lb lp n) = Inr c
      \<longrightarrow> lib c = lb
        \<and> session c = ClientSession
            (if loop_truthy lp then lp
             else (case get_event_loop e of Inr l' \<Rightarrow> Some l' | Inl x \<Rightarrow> None))
        \<and> make_session e lb
            (if loop_truthy lp then lp
             else (case get_event_loop e of Inr l' \<Rightarrow> Some l' | Inl x \<Rightarrow> None)) =
            Inr (session c))
   \<and> (lb = JString ''multio'' \<and> sess = None \<and> fst (Client_init e sess lb lp n) = Inr c
      \<longrightarrow> lib c = lb \<and> session c = AsksSession \<and> make_session e lb lp = Inr (session c))
   \<and> snd (Client_init e sess lb lp n) = n"
  by (auto simp: Client_init_def make_session_def raises_def
      split: option.splits sum.splits if_splits)

theorem Client_init_configuration_errors_witness:
  "raises (fst (Client_init env_with_http None (JString ''trio'') None (stub_net JNull)))
     ValueError_class
   \<and> raises (fst (Client_init env_without_http None (JString ''asyncio'') None (stub_net JNull)))
     ImportError_class
   \<and> raises (fst (Client_init env_without_http None (JString ''multio'') None (stub_net JNull)))
     ImportError_class
   \<and> fst (Client_init env_with_http None (JString ''asyncio'') None (stub_net JNull)) =
       Inr \<lparr>lib = JString ''asyncio'', session = ClientSession (Some (Loop 0 True))\<rparr>
   \<and> make_session env_with_http (JString ''asyncio'') (Some (Loop 0 True)) =
       Inr (ClientSession (Some (Loop 0 True)))
   \<and> fst (Client_init env_with_http None (JString ''multio'') None (stub_net JNull)) =
       Inr \<lparr>lib = JString ''multio'', session = AsksSession\<rparr>
   \<and> make_session env_with_http (JString ''multio'') None = Inr AsksSession
   \<and> snd (Client_init env_with_http None (JString ''trio'') None (stub_net JNull)) =
       stub_net JNull"
  using Client_init_configuration_errors [where lb = "JString ''trio''" and e = env_with_http
      and sess = None and lp = None and n = "stub_net JNull"]
    Client_init_configuration_errors [where lb = "JString ''asyncio''" and e = env_without_http
      and sess = None and lp = None and n = "stub_net JNull" and l = "Loop 0 True"]
    Client_init_configuration_errors [where lb = "JString ''multio''" and e = env_without_http
      and sess = None and lp = None and n = "stub_net JNull"]
    Client_init_configuration_errors [where lb = "JString ''asyncio''" and e = env_with_http
      and sess = None and lp = None and n = "stub_net JNull"
      and c = "\<lparr>lib = JString ''asyncio'', session = ClientSession (Some (Loop 0 True))\<rparr>"]
    Client_init_configuration_errors [where lb = "JString ''multio''" and e = env_with_http
      and sess = None and lp = None and n = "stub_net JNull"
      and c = "\<lparr>lib = JString ''multio'', session = AsksSession\<rparr>"]
  by (simp add: env_with_http_def env_without_http_def Client_init_def make_session_def)




text \<open>
  C10.  The exception \<open>_paged_request\<close> raises for an empty \<open>data.Page.media\<close> is
  \<open>MediaNotFound\<close> with the message \<open>"Not Found."\<close> and the status 404: the very exception
  \<open>handle_error\<close> raises for an error entry of the service with that message and status
  404.  It is an instance of \<open>KadalError\<close>, so \<open>except KadalError\<close> catches it.  The variables
  are any that the call can forward.
\<close>

theorem empty_page_error_is_service_not_found:
  assumes "\<not> kwargs_clash [''self'', ''page'', ''perPage'', ''query''] variables"
    and "answers n (MEDIA_PAGED Q) ((''page'', pg) # (''perPage'', perPage) # variables) data"
    and "no_errors data"
    and "page_media data = Inr (JArray [])"
  shows "paged_request self Q pg perPage variables n =
           (Inl (MediaNotFound (JString ''Not Found.'') (JInt 404)),
            posted n (MEDIA_PAGED Q) ((''page'', pg) # (''perPage'', perPage) # variables))
         \<and> message (MediaNotFound (JString ''Not Found.'') (JInt 404)) =
             Some (JString ''Not Found.'')
         \<and> status (MediaNotFound (JString ''Not Found.'') (JInt 404)) = Some (JInt 404)
         \<and> handle_error (JObject [(''message'', JString ''Not Found.''), (''status'', JInt 404)]) =
             Inl (MediaNotFound (JString ''Not Found.'') (JInt 404))
         \<and> isinstance (MediaNotFound (JString ''Not Found.'') (JInt 404)) KadalError_class"
  using assms(4)
  by (simp add: paged_request_answered[OF assms(1,2,3)] handle_error_def isinstance_def)

theorem empty_page_error_is_service_not_found_witness:
  "\<not> kwargs_clash [''self'', ''page'', ''perPage'', ''query''] []
   \<and> answers (stub_net empty_page) (MEDIA_PAGED queries0)
        [(''page'', JInt 1), (''perPage'', JInt 50)] empty_page
   \<and> no_errors empty_page \<and> page_media empty_page = Inr (JArray [])
   \<and> paged_request client0 queries0 (JInt 1) (JInt 50) [] (stub_net empty_page) =
       (Inl (MediaNotFound (JString ''Not Found.'') (JInt 404)),
        posted (stub_net empty_page) (MEDIA_PAGED queries0)
          [(''page'', JInt 1), (''perPage'', JInt 50)])
   \<and> isinstance (MediaNotFound (JString ''Not Found.'') (JInt 404)) KadalError_class"
  using empty_page_error_is_service_not_found [of "[]" "stub_net empty_page" queries0
      "JInt 1" "JInt 50" empty_page client0]
  by (simp add: answers_stub_net no_errors_empty_page page_media_empty_page kwargs_clash_def)

end
